theory Spec2Isabelle
  imports Main "HOL-Library.Sublist"
begin

section \<open>Python values used by server_http.py\<close>

text \<open>
  A Python \<open>str\<close> is a sequence of Unicode code points, so it is a list of naturals.
  The string literals of the source that are not ASCII are written code point by code point.
\<close>

type_synonym pystr = "nat list"

definition ascii :: "string \<Rightarrow> pystr" where
  "ascii s = map of_char s"

text \<open>
  The values a Python name can hold here. Python checks no annotation at run time, so what a
  function returns is a value of any kind: a \<open>str\<close>, an \<open>int\<close>, \<open>None\<close>, a
  \<open>dict\<close> (with string keys), or an object of some other class, given by the name of
  its class.
\<close>

datatype pyval =
    PyStr pystr
  | PyInt int
  | PyNone
  | PyDict "pystr \<Rightarrow> pyval option"
  | PyObject string

text \<open>\<open>isinstance(v, str)\<close> and \<open>isinstance(v, dict)\<close>.\<close>

fun is_str :: "pyval \<Rightarrow> bool" where
  "is_str (PyStr s) = True"
| "is_str (PyInt n) = False"
| "is_str PyNone = False"
| "is_str (PyDict d) = False"
| "is_str (PyObject c) = False"

fun is_dict :: "pyval \<Rightarrow> bool" where
  "is_dict (PyStr s) = False"
| "is_dict (PyInt n) = False"
| "is_dict PyNone = False"
| "is_dict (PyDict d) = True"
| "is_dict (PyObject c) = False"

text \<open>
  Python's exception hierarchy, as far as \<open>except Exception\<close> can tell classes apart:
  \<open>Exception\<close> and its subclasses on one side, the classes that derive from
  \<open>BaseException\<close> but not from \<open>Exception\<close> on the other.
\<close>

datatype exc_class =
    Exception_class string
  | KeyboardInterrupt
  | SystemExit
  | GeneratorExit
  | BaseException_class string

fun is_Exception :: "exc_class \<Rightarrow> bool" where
  "is_Exception (Exception_class n) = True"
| "is_Exception KeyboardInterrupt = False"
| "is_Exception SystemExit = False"
| "is_Exception GeneratorExit = False"
| "is_Exception (BaseException_class n) = False"

text \<open>
  An exception object: its class, and what its \<open>__str__\<close> does when \<open>str(e)\<close> calls it:
  it gives a string (\<open>Inr\<close>) or raises an exception of its own (\<open>Inl\<close>).
\<close>

datatype pyexc = PyExc (class_of: exc_class) (dunder_str: "pyexc + pystr")

text \<open>What evaluating a Python expression or block does: it returns a value or raises.\<close>

datatype 'a outcome = Returned 'a | Raised pyexc

text \<open>The builtin \<open>str\<close> on an exception object.\<close>

definition py_str :: "pyexc \<Rightarrow> pystr outcome" where
  "py_str e = (case dunder_str e of Inl e' \<Rightarrow> Raised e' | Inr s \<Rightarrow> Returned s)"

section \<open>The process and the collaborator module\<close>

text \<open>
  The mutable state of the process that the two tools can touch: the environment
  (\<open>os.environ\<close>) and whether \<open>douyin_mcp_server.douyin_api\<close> is already in
  \<open>sys.modules\<close>.
\<close>

record process =
  environ :: "pystr \<rightharpoonup> pystr"
  api_loaded :: bool

text \<open>
  The module \<open>douyin_mcp_server.douyin_api\<close> is not part of server_http.py; it is a
  parameter of the model. \<open>exec_module\<close> is what running the module's top level does at
  its first import (\<open>None\<close>: it loads). \<open>has_name\<close> tells which names the loaded module
  has, and \<open>import_error_text\<close> is the text of the \<open>ImportError\<close> for a name it lacks.
  The other two fields are the behaviour of the two functions the tools call: a call
  returns some value or raises; a call that blocks for ever is not modelled.
\<close>

record douyin_api =
  exec_module :: "pyexc option"
  has_name :: "pystr \<Rightarrow> bool"
  import_error_text :: "pystr \<Rightarrow> pystr"
  get_download_link :: "pystr \<Rightarrow> pyval outcome"
  extract_text :: "pystr \<Rightarrow> pystr \<Rightarrow> pystr \<Rightarrow> pyval outcome"

text \<open>What a tool does that can be seen from outside, in order.\<close>

datatype event =
    Getenv pystr
  | Import_from_api pystr
  | Call_get_download_link pystr
  | Call_extract_text pystr pystr pystr

text \<open>One run of a block: its outcome, the events it caused, the process afterwards.\<close>

record 'a run =
  outcome :: "'a outcome"
  events :: "event list"
  after :: process

definition os_getenv :: "process \<Rightarrow> pystr \<Rightarrow> pystr option" where
  "os_getenv p name = environ p name"

text \<open>\<open>not x\<close> for \<open>x\<close> that is \<open>None\<close> or a \<open>str\<close>.\<close>

fun py_not :: "pystr option \<Rightarrow> bool" where
  "py_not None = True"
| "py_not (Some s) = (s = [])"

text \<open>Taking a name from the loaded module: an \<open>ImportError\<close> when the module lacks it.\<close>

definition bind_name :: "douyin_api \<Rightarrow> pystr \<Rightarrow> unit outcome" where
  "bind_name api name =
     (if has_name api name then Returned ()
      else Raised (PyExc (Exception_class ''ImportError'') (Inr (import_error_text api name))))"

text \<open>
  \<open>from douyin_mcp_server.douyin_api import name\<close>: a module already in
  \<open>sys.modules\<close> is not run again; a module whose top level raises is not kept; a module
  that has loaded stays in \<open>sys.modules\<close>, also when it lacks the name.
\<close>

definition import_api :: "douyin_api \<Rightarrow> pystr \<Rightarrow> process \<Rightarrow> unit outcome \<times> process" where
  "import_api api name p =
     (if api_loaded p then (bind_name api name, p)
      else (case exec_module api of
              Some e \<Rightarrow> (Raised e, p)
            | None \<Rightarrow> (bind_name api name, p\<lparr>api_loaded := True\<rparr>)))"

text \<open>
  \<open>try: ... except Exception as e: return h(e)\<close> around a block that returns. The
  expression \<open>h(e)\<close> is evaluated inside the handler, outside the \<open>try\<close>: when it
  raises, the exception leaves the function.
\<close>

definition except_Exception :: "'a run \<Rightarrow> (pyexc \<Rightarrow> 'a outcome) \<Rightarrow> 'a run" where
  "except_Exception r h =
     (case outcome r of
        Returned v \<Rightarrow> r
      | Raised e \<Rightarrow> if is_Exception (class_of e) then r\<lparr>outcome := h e\<rparr> else r)"

section \<open>String constants of the source\<close>

text \<open>The marker U+9519 U+8BEF U+FF1A that starts every error string of the text tool.\<close>

definition error_marker :: pystr where
  "error_marker = [0x9519, 0x8BEF, 0xFF1A]"

definition DASHSCOPE_API_KEY :: pystr where
  "DASHSCOPE_API_KEY = ascii ''DASHSCOPE_API_KEY''"

text \<open>The string returned at line 77.\<close>

definition missing_key_message :: pystr where
  "missing_key_message =
     error_marker @ [0x672A, 0x8BBE, 0x7F6E, 0x20] @ ascii ''DASHSCOPE_API_KEY''
     @ [0x20, 0x73AF, 0x5883, 0x53D8, 0x91CF, 0xFF0C, 0x8BF7, 0x5728, 0x90E8, 0x7F72, 0x65F6,
        0x914D, 0x7F6E, 0x963F, 0x91CC, 0x4E91, 0x767E, 0x70BC, 0x20]
     @ ascii ''API'' @ [0x20, 0x5BC6, 0x94A5]"

text \<open>The value of the key \<open>message\<close> at line 57.\<close>

definition link_failed_message :: pystr where
  "link_failed_message = [0x83B7, 0x53D6, 0x4E0B, 0x8F7D, 0x94FE, 0x63A5, 0x5931, 0x8D25]"

definition default_model :: pystr where
  "default_model = ascii ''paraformer-v2''"

section \<open>Tool 1: get_douyin_download_link\<close>

text \<open>Lines 51 to 53, the block under \<open>try\<close>.\<close>

definition get_douyin_download_link_try :: "douyin_api \<Rightarrow> process \<Rightarrow> pystr \<Rightarrow> pyval run" where
  "get_douyin_download_link_try api p share_link =
     (case import_api api (ascii ''get_download_link'') p of
        (Raised e, p') \<Rightarrow>
          \<lparr>outcome = Raised e, events = [Import_from_api (ascii ''get_download_link'')],
           after = p'\<rparr>
      | (Returned u, p') \<Rightarrow>
          \<lparr>outcome = get_download_link api share_link,
           events = [Import_from_api (ascii ''get_download_link''),
                     Call_get_download_link share_link],
           after = p'\<rparr>)"

text \<open>
  Lines 55 to 58, the dict display of the handler: \<open>str(e)\<close> is evaluated first, and the
  dict is built when it has returned.
\<close>

definition link_error_dict :: "pyexc \<Rightarrow> pyval outcome" where
  "link_error_dict e =
     (case py_str e of
        Raised e' \<Rightarrow> Raised e'
      | Returned s \<Rightarrow>
          Returned (PyDict [ascii ''error'' \<mapsto> PyStr s,
                            ascii ''message'' \<mapsto> PyStr link_failed_message]))"

definition get_douyin_download_link :: "douyin_api \<Rightarrow> process \<Rightarrow> pystr \<Rightarrow> pyval run" where
  "get_douyin_download_link api p share_link =
     except_Exception (get_douyin_download_link_try api p share_link) link_error_dict"

section \<open>Tool 2: extract_douyin_text\<close>

text \<open>Lines 75 to 82, the block under \<open>try\<close>, with \<open>model\<close> already bound.\<close>

definition extract_douyin_text_try ::
  "douyin_api \<Rightarrow> process \<Rightarrow> pystr \<Rightarrow> pystr \<Rightarrow> pyval run" where
  "extract_douyin_text_try api p share_link model =
     (case os_getenv p DASHSCOPE_API_KEY of
        None \<Rightarrow>
          \<lparr>outcome = Returned (PyStr missing_key_message),
           events = [Getenv DASHSCOPE_API_KEY], after = p\<rparr>
      | Some api_key \<Rightarrow>
          if py_not (Some api_key) then
            \<lparr>outcome = Returned (PyStr missing_key_message),
             events = [Getenv DASHSCOPE_API_KEY], after = p\<rparr>
          else
            (case import_api api (ascii ''extract_text'') p of
               (Raised e, p') \<Rightarrow>
                 \<lparr>outcome = Raised e,
                  events = [Getenv DASHSCOPE_API_KEY, Import_from_api (ascii ''extract_text'')],
                  after = p'\<rparr>
             | (Returned u, p') \<Rightarrow>
                 \<lparr>outcome = extract_text api share_link api_key model,
                  events = [Getenv DASHSCOPE_API_KEY, Import_from_api (ascii ''extract_text''),
                            Call_extract_text share_link api_key model],
                  after = p'\<rparr>))"

text \<open>Line 84, the f-string of the handler: the marker, then \<open>str(e)\<close> when it returns.\<close>

definition text_error_string :: "pyexc \<Rightarrow> pyval outcome" where
  "text_error_string e =
     (case py_str e of
        Raised e' \<Rightarrow> Raised e'
      | Returned s \<Rightarrow> Returned (PyStr (error_marker @ s)))"

text \<open>
  The parameter \<open>model\<close> of line 62: \<open>None\<close> is a call that passes no \<open>model\<close>,
  which binds the default; \<open>Some m\<close> is a call that passes \<open>m\<close>.
\<close>

definition bind_model :: "pystr option \<Rightarrow> pystr" where
  "bind_model model_arg = (case model_arg of None \<Rightarrow> default_model | Some m \<Rightarrow> m)"

definition extract_douyin_text ::
  "douyin_api \<Rightarrow> process \<Rightarrow> pystr \<Rightarrow> pystr option \<Rightarrow> pyval run" where
  "extract_douyin_text api p share_link model_arg =
     except_Exception
       (extract_douyin_text_try api p share_link (bind_model model_arg)) text_error_string"

section \<open>Startup: the port\<close>

text \<open>\<open>os.getenv(name, default)\<close> with a default that is not a string.\<close>

datatype str_or_int = A_str pystr | An_int int

definition os_getenv_default :: "process \<Rightarrow> pystr \<Rightarrow> int \<Rightarrow> str_or_int" where
  "os_getenv_default p name d = (case environ p name of None \<Rightarrow> An_int d | Some s \<Rightarrow> A_str s)"

text \<open>
  The builtin \<open>int\<close>: the identity on an \<open>int\<close>; on a \<open>str\<close> it parses, which belongs to
  the language and not to this program, so the parser \<open>int_of_str\<close> is a parameter.
\<close>

definition py_int :: "(pystr \<Rightarrow> int outcome) \<Rightarrow> str_or_int \<Rightarrow> int outcome" where
  "py_int int_of_str v = (case v of An_int n \<Rightarrow> Returned n | A_str s \<Rightarrow> int_of_str s)"

text \<open>Line 123.\<close>

definition main_port :: "(pystr \<Rightarrow> int outcome) \<Rightarrow> process \<Rightarrow> int outcome" where
  "main_port int_of_str p = py_int int_of_str (os_getenv_default p (ascii ''PORT'') 8000)"

section \<open>The pipeline's success value\<close>

text \<open>
  Modelled from the spec: the value that the pipeline's \<open>get_download_link\<close> returns on
  success. The function is in \<open>douyin_mcp_server.douyin_api\<close>, which is not in
  server_http.py. The spec gives it as VideoMetadata, "{ videoId, title, author, coverUrl,
  playUrl, durationSeconds }", handed to the tool as a mapping with these six fields.
\<close>

record VideoMetadata =
  videoId :: pystr
  title :: pystr
  author :: pystr
  coverUrl :: pystr
  playUrl :: pystr
  durationSeconds :: int

definition metadata_dict :: "VideoMetadata \<Rightarrow> pystr \<rightharpoonup> pyval" where
  "metadata_dict v =
     [ascii ''videoId'' \<mapsto> PyStr (videoId v),
      ascii ''title'' \<mapsto> PyStr (title v),
      ascii ''author'' \<mapsto> PyStr (author v),
      ascii ''coverUrl'' \<mapsto> PyStr (coverUrl v),
      ascii ''playUrl'' \<mapsto> PyStr (playUrl v),
      ascii ''durationSeconds'' \<mapsto> PyInt (durationSeconds v)]"

text \<open>
  Modelled from the spec: \<open>get_download_link\<close> of the pipeline, as the stages that
  resolve a share link to VideoMetadata (\<open>resolve\<close>, a parameter) followed by the
  mapping above; a failure of a stage is raised to the caller.
\<close>

definition spec_get_download_link ::
  "(pystr \<Rightarrow> VideoMetadata outcome) \<Rightarrow> pystr \<Rightarrow> pyval outcome" where
  "spec_get_download_link resolve share_link =
     (case resolve share_link of
        Returned v \<Rightarrow> Returned (PyDict (metadata_dict v))
      | Raised e \<Rightarrow> Raised e)"

section \<open>Concrete processes and collaborators\<close>

definition fresh_process :: process where
  "fresh_process = \<lparr>environ = Map.empty, api_loaded = False\<rparr>"

definition configured_process :: process where
  "configured_process =
     \<lparr>environ = [DASHSCOPE_API_KEY \<mapsto> ascii ''sk-test''], api_loaded = False\<rparr>"

definition empty_key_process :: process where
  "empty_key_process = \<lparr>environ = [DASHSCOPE_API_KEY \<mapsto> []], api_loaded = False\<rparr>"

definition port_process :: process where
  "port_process = \<lparr>environ = [ascii ''PORT'' \<mapsto> ascii ''8080''], api_loaded = False\<rparr>"

definition sample_link :: pystr where
  "sample_link = ascii ''https://v.douyin.com/abc/''"

definition sample_metadata :: VideoMetadata where
  "sample_metadata =
     \<lparr>videoId = ascii ''123456'', title = ascii ''t'', author = ascii ''a'',
      coverUrl = ascii ''https://x.example/c.jpg'', playUrl = ascii ''https://x.example/abc.mp4'',
      durationSeconds = 15\<rparr>"

text \<open>Stages that resolve every share link to the same video, and stages that fail.\<close>

definition mock_resolve :: "pystr \<Rightarrow> VideoMetadata outcome" where
  "mock_resolve l = Returned sample_metadata"

definition provider_error :: pyexc where
  "provider_error = PyExc (Exception_class ''RuntimeError'') (Inr (ascii ''ProviderError''))"

definition failing_resolve :: "pystr \<Rightarrow> VideoMetadata outcome" where
  "failing_resolve l = Raised provider_error"

text \<open>A collaborator whose stages all succeed; the transcript is \<open>hello world\<close>.\<close>

definition mock_api :: douyin_api where
  "mock_api =
     \<lparr>exec_module = None,
      has_name = (\<lambda>n. True),
      import_error_text = (\<lambda>n. []),
      get_download_link = (\<lambda>l. Returned (PyDict (metadata_dict sample_metadata))),
      extract_text = (\<lambda>l k m. Returned (PyStr (ascii ''hello world'')))\<rparr>"

text \<open>A collaborator whose two functions fail with an ordinary error.\<close>

definition failing_api :: douyin_api where
  "failing_api =
     \<lparr>exec_module = None,
      has_name = (\<lambda>n. True),
      import_error_text = (\<lambda>n. []),
      get_download_link = (\<lambda>l. Raised provider_error),
      extract_text = (\<lambda>l k m. Raised provider_error)\<rparr>"

definition interrupt :: pyexc where
  "interrupt = PyExc KeyboardInterrupt (Inr [])"

text \<open>
  A collaborator interrupted during its blocking call: \<open>KeyboardInterrupt\<close> is raised
  inside the function the tool has called.
\<close>

definition interrupted_api :: douyin_api where
  "interrupted_api =
     \<lparr>exec_module = None,
      has_name = (\<lambda>n. True),
      import_error_text = (\<lambda>n. []),
      get_download_link = (\<lambda>l. Raised interrupt),
      extract_text = (\<lambda>l k m. Raised interrupt)\<rparr>"

text \<open>A collaborator whose functions call \<open>sys.exit(1)\<close>.\<close>

definition exit_request :: pyexc where
  "exit_request = PyExc SystemExit (Inr (ascii ''1''))"

definition exiting_api :: douyin_api where
  "exiting_api =
     \<lparr>exec_module = None,
      has_name = (\<lambda>n. True),
      import_error_text = (\<lambda>n. []),
      get_download_link = (\<lambda>l. Raised exit_request),
      extract_text = (\<lambda>l k m. Raised exit_request)\<rparr>"

text \<open>
  A collaborator whose functions fail with an error whose \<open>__str__\<close> raises a
  \<open>TypeError\<close> (as Python does for a \<open>__str__\<close> that returns something that is not a
  string).
\<close>

definition str_failure :: pyexc where
  "str_failure = PyExc (Exception_class ''TypeError'')
                   (Inr (ascii ''__str__ returned non-string''))"

definition unprintable_error :: pyexc where
  "unprintable_error = PyExc (Exception_class ''RuntimeError'') (Inl str_failure)"

definition unprintable_api :: douyin_api where
  "unprintable_api =
     \<lparr>exec_module = None,
      has_name = (\<lambda>n. True),
      import_error_text = (\<lambda>n. []),
      get_download_link = (\<lambda>l. Raised unprintable_error),
      extract_text = (\<lambda>l k m. Raised unprintable_error)\<rparr>"

text \<open>A collaborator whose functions return \<open>None\<close>.\<close>

definition none_api :: douyin_api where
  "none_api =
     \<lparr>exec_module = None,
      has_name = (\<lambda>n. True),
      import_error_text = (\<lambda>n. []),
      get_download_link = (\<lambda>l. Returned PyNone),
      extract_text = (\<lambda>l k m. Returned PyNone)\<rparr>"

text \<open>A collaborator whose transcription gives back the name of the model it was given.\<close>

definition echo_api :: douyin_api where
  "echo_api =
     \<lparr>exec_module = None,
      has_name = (\<lambda>n. True),
      import_error_text = (\<lambda>n. []),
      get_download_link = (\<lambda>l. Returned (PyDict Map.empty)),
      extract_text = (\<lambda>l k m. Returned (PyStr m))\<rparr>"

text \<open>
  A parser to put in place of \<open>int\<close> on strings: on a non-empty string of the ASCII
  digits it is the decimal value, as \<open>int\<close> is there; everything else is refused here.
\<close>

definition int_of_ascii_digits :: "pystr \<Rightarrow> int outcome" where
  "int_of_ascii_digits s =
     (if s \<noteq> [] \<and> list_all (\<lambda>c. 48 \<le> c \<and> c \<le> 57) s
      then Returned (foldl (\<lambda>a c. 10 * a + int (c - 48)) 0 s)
      else Raised (PyExc (Exception_class ''ValueError'') (Inr [])))"

section \<open>Facts about the building blocks\<close>

lemmas tool_defs =
  get_douyin_download_link_def get_douyin_download_link_try_def
  extract_douyin_text_def extract_douyin_text_try_def bind_model_def
  import_api_def bind_name_def except_Exception_def os_getenv_def
  link_error_dict_def text_error_string_def py_str_def

lemma loaded_process: "api_loaded p \<Longrightarrow> p\<lparr>api_loaded := True\<rparr> = p"
  by simp

lemma import_api_outcomes:
  "((api_loaded p \<or> exec_module api = None)
      \<and> import_api api name p = (bind_name api name, p\<lparr>api_loaded := True\<rparr>))
   \<or> (\<exists>e. import_api api name p = (Raised e, p) \<and> exec_module api = Some e \<and> \<not> api_loaded p)"
  by (cases "exec_module api") (auto simp add: import_api_def)


lemma import_api_loaded:
  "api_loaded p \<or> exec_module api = None \<Longrightarrow>
   fst (import_api api name (p\<lparr>api_loaded := True\<rparr>)) = fst (import_api api name p)"
  by (auto simp add: import_api_def)

lemma import_api_ok_after:
  "fst (import_api api name p) = Returned () \<Longrightarrow>
   import_api api name p = (Returned (), p\<lparr>api_loaded := True\<rparr>)"
  using import_api_outcomes [of p api name] by auto

lemma import_api_fails_after:
  "fst (import_api api name p) = Raised e \<Longrightarrow>
   import_api api name p = (Raised e, p) \<or> import_api api name p = (Raised e, p\<lparr>api_loaded := True\<rparr>)"
  using import_api_outcomes [of p api name] by auto

lemma link_try_outcome_import_fails:
  "fst (import_api api (ascii ''get_download_link'') p) = Raised e \<Longrightarrow>
   outcome (get_douyin_download_link_try api p share_link) = Raised e"
  using import_api_fails_after [of api "ascii ''get_download_link''" p e]
  by (auto simp add: get_douyin_download_link_try_def)

lemma link_try_import_ok:
  "fst (import_api api (ascii ''get_download_link'') p) = Returned () \<Longrightarrow>
   get_douyin_download_link_try api p share_link =
     \<lparr>outcome = get_download_link api share_link,
      events = [Import_from_api (ascii ''get_download_link''), Call_get_download_link share_link],
      after = p\<lparr>api_loaded := True\<rparr>\<rparr>"
  by (simp add: get_douyin_download_link_try_def import_api_ok_after)

lemma link_try_outcome:
  "outcome (get_douyin_download_link_try api p share_link) =
     (case fst (import_api api (ascii ''get_download_link'') p) of
        Raised e \<Rightarrow> Raised e
      | Returned u \<Rightarrow> get_download_link api share_link)"
  by (simp add: get_douyin_download_link_try_def split: prod.splits outcome.splits)

lemma text_try_no_key:
  "py_not (os_getenv p DASHSCOPE_API_KEY) \<Longrightarrow>
   extract_douyin_text_try api p share_link model =
     \<lparr>outcome = Returned (PyStr missing_key_message),
      events = [Getenv DASHSCOPE_API_KEY], after = p\<rparr>"
  by (cases "os_getenv p DASHSCOPE_API_KEY") (simp_all add: extract_douyin_text_try_def)

lemma text_try_outcome_import_fails:
  "os_getenv p DASHSCOPE_API_KEY = Some k \<Longrightarrow> k \<noteq> [] \<Longrightarrow>
   fst (import_api api (ascii ''extract_text'') p) = Raised e \<Longrightarrow>
   outcome (extract_douyin_text_try api p share_link model) = Raised e"
  using import_api_fails_after [of api "ascii ''extract_text''" p e]
  by (auto simp add: extract_douyin_text_try_def)

lemma text_try_import_ok:
  "os_getenv p DASHSCOPE_API_KEY = Some k \<Longrightarrow> k \<noteq> [] \<Longrightarrow>
   fst (import_api api (ascii ''extract_text'') p) = Returned () \<Longrightarrow>
   extract_douyin_text_try api p share_link model =
     \<lparr>outcome = extract_text api share_link k model,
      events = [Getenv DASHSCOPE_API_KEY, Import_from_api (ascii ''extract_text''),
                Call_extract_text share_link k model],
      after = p\<lparr>api_loaded := True\<rparr>\<rparr>"
  by (simp add: extract_douyin_text_try_def import_api_ok_after)

lemma text_try_Returned:
  "outcome (extract_douyin_text_try api p share_link model) = Returned v \<Longrightarrow>
   v = PyStr missing_key_message
   \<or> (\<exists>k. os_getenv p DASHSCOPE_API_KEY = Some k \<and> k \<noteq> []
           \<and> extract_text api share_link k model = Returned v)"
  by (auto simp add: extract_douyin_text_try_def split: option.splits if_splits prod.splits
      outcome.splits)

lemma except_Exception_Returned:
  "outcome r = Returned v \<Longrightarrow> except_Exception r h = r"
  by (simp add: except_Exception_def)

lemma except_Exception_caught:
  "outcome r = Raised e \<Longrightarrow> is_Exception (class_of e) \<Longrightarrow>
   except_Exception r h = r\<lparr>outcome := h e\<rparr>"
  by (simp add: except_Exception_def)

lemma except_Exception_passed:
  "outcome r = Raised e \<Longrightarrow> \<not> is_Exception (class_of e) \<Longrightarrow> except_Exception r h = r"
  by (simp add: except_Exception_def)

lemma except_Exception_events: "events (except_Exception r h) = events r"
  by (simp add: except_Exception_def split: outcome.splits)

lemma except_Exception_after: "after (except_Exception r h) = after r"
  by (simp add: except_Exception_def split: outcome.splits)

lemma except_Exception_outcome:
  "outcome (except_Exception r h) =
     (case outcome r of
        Returned v \<Rightarrow> Returned v
      | Raised e \<Rightarrow> if is_Exception (class_of e) then h e else Raised e)"
  by (simp add: except_Exception_def split: outcome.splits)

lemma except_Exception_Raised:
  "outcome (except_Exception r h) = Raised x
   \<longleftrightarrow> (outcome r = Raised x \<and> \<not> is_Exception (class_of x))
       \<or> (\<exists>e. outcome r = Raised e \<and> is_Exception (class_of e) \<and> h e = Raised x)"
  by (auto simp add: except_Exception_outcome split: outcome.splits)

lemma link_error_dict_Raised: "link_error_dict e = Raised x \<longleftrightarrow> py_str e = Raised x"
  by (simp add: link_error_dict_def split: outcome.splits)

lemma text_error_string_Raised: "text_error_string e = Raised x \<longleftrightarrow> py_str e = Raised x"
  by (simp add: text_error_string_def split: outcome.splits)

lemma link_error_dict_Returned: "link_error_dict e = Returned v \<Longrightarrow> is_dict v"
  by (auto simp add: link_error_dict_def split: outcome.splits)

lemma text_error_string_Returned: "text_error_string e = Returned v \<Longrightarrow> is_str v"
  by (auto simp add: text_error_string_def split: outcome.splits)

lemma text_tool_no_key:
  "py_not (os_getenv p DASHSCOPE_API_KEY) \<Longrightarrow>
   extract_douyin_text api p share_link model_arg =
     \<lparr>outcome = Returned (PyStr missing_key_message),
      events = [Getenv DASHSCOPE_API_KEY], after = p\<rparr>"
  by (simp add: extract_douyin_text_def text_try_no_key except_Exception_Returned)

lemma dom_metadata_dict:
  "dom (metadata_dict v) =
     {ascii ''videoId'', ascii ''title'', ascii ''author'', ascii ''coverUrl'',
      ascii ''playUrl'', ascii ''durationSeconds''}"
  by (auto simp add: metadata_dict_def)

lemma link_tool_same_import:
  "fst (import_api api (ascii ''get_download_link'') q)
     = fst (import_api api (ascii ''get_download_link'') p) \<Longrightarrow>
   outcome (get_douyin_download_link api q share_link)
     = outcome (get_douyin_download_link api p share_link)"
  by (simp add: get_douyin_download_link_def except_Exception_outcome link_try_outcome)

lemma after_link_tool:
  "after (get_douyin_download_link api p share_link) = p
   \<or> ((api_loaded p \<or> exec_module api = None)
      \<and> after (get_douyin_download_link api p share_link) = p\<lparr>api_loaded := True\<rparr>)"
  using import_api_outcomes [of p api "ascii ''get_download_link''"]
  by (auto simp add: get_douyin_download_link_def except_Exception_after
      get_douyin_download_link_try_def split: outcome.splits)

lemma after_text_tool:
  "after (extract_douyin_text api p share_link model_arg) = p
   \<or> ((api_loaded p \<or> exec_module api = None)
      \<and> after (extract_douyin_text api p share_link model_arg) = p\<lparr>api_loaded := True\<rparr>)"
  using import_api_outcomes [of p api "ascii ''extract_text''"]
  by (auto simp add: extract_douyin_text_def except_Exception_after
      extract_douyin_text_try_def split: option.splits outcome.splits)

subsection \<open>The concrete processes and collaborators\<close>

lemma key_of_fresh: "os_getenv fresh_process DASHSCOPE_API_KEY = None"
  by (simp add: os_getenv_def fresh_process_def)

lemma key_of_empty: "os_getenv empty_key_process DASHSCOPE_API_KEY = Some []"
  by (simp add: os_getenv_def empty_key_process_def)

lemma key_of_configured: "os_getenv configured_process DASHSCOPE_API_KEY = Some (ascii ''sk-test'')"
  by (simp add: os_getenv_def configured_process_def)

lemma key_nonempty: "ascii ''sk-test'' \<noteq> []"
  by (simp add: ascii_def)

lemma provider_error_is_Exception: "is_Exception (class_of provider_error)"
  by (simp add: provider_error_def)

lemma provider_error_str: "py_str provider_error = Returned (ascii ''ProviderError'')"
  by (simp add: provider_error_def py_str_def)

lemma import_failing_api:
  "fst (import_api failing_api name configured_process) = Returned ()"
  by (simp add: import_api_def bind_name_def failing_api_def configured_process_def)

lemma import_failing_api_fresh: "fst (import_api failing_api name fresh_process) = Returned ()"
  by (simp add: import_api_def bind_name_def failing_api_def fresh_process_def)

lemma import_mock_api: "fst (import_api mock_api name configured_process) = Returned ()"
  by (simp add: import_api_def bind_name_def mock_api_def configured_process_def)

lemma import_mock_api_fresh: "fst (import_api mock_api name fresh_process) = Returned ()"
  by (simp add: import_api_def bind_name_def mock_api_def fresh_process_def)

lemma import_echo_api: "fst (import_api echo_api name configured_process) = Returned ()"
  by (simp add: import_api_def bind_name_def echo_api_def configured_process_def)

lemma mock_api_spec: "get_download_link mock_api = spec_get_download_link mock_resolve"
  by (simp add: mock_api_def mock_resolve_def fun_eq_iff spec_get_download_link_def)

lemma failing_api_spec: "get_download_link failing_api = spec_get_download_link failing_resolve"
  by (simp add: failing_api_def failing_resolve_def fun_eq_iff spec_get_download_link_def)

lemmas sample_defs =
  fresh_process_def configured_process_def empty_key_process_def
  mock_api_def failing_api_def interrupted_api_def exiting_api_def unprintable_api_def
  none_api_def echo_api_def
  provider_error_def interrupt_def exit_request_def unprintable_error_def str_failure_def
  DASHSCOPE_API_KEY_def ascii_def

section \<open>The tool boundary\<close>

text \<open>
  C1, as stated: for every share_link (and model) each tool returns a value to its caller
  and no exception raised by the pipeline crosses the tool boundary. The handlers are
  \<open>except Exception\<close>, so this fails for an exception whose class is not a subclass of
  \<open>Exception\<close>: a \<open>KeyboardInterrupt\<close> raised inside \<open>get_download_link\<close> leaves
  \<open>get_douyin_download_link\<close> uncaught.
\<close>

theorem interrupt_crosses_tool_boundary:
  "outcome (get_douyin_download_link interrupted_api fresh_process sample_link) = Raised interrupt"
  by (simp add: tool_defs interrupted_api_def fresh_process_def interrupt_def)

text \<open>
  C1, amended: for every share_link and every model argument, each of the two tools returns
  a value to its caller except in two cases, in which an exception leaves the tool: the
  exception raised in the \<open>try\<close> block (by the import or by the pipeline) is not an
  instance of \<open>Exception\<close>, or it is one and \<open>str(e)\<close> raises in the handler. A value
  that \<open>get_douyin_download_link\<close> returns is a dict or is the value the pipeline's
  \<open>get_download_link\<close> returned; a value that \<open>extract_douyin_text\<close> returns is a string
  or is the value the pipeline's \<open>extract_text\<close> returned.
\<close>

theorem tool_outcomes:
  "(outcome (get_douyin_download_link api p share_link) = Raised x
      \<longleftrightarrow> (outcome (get_douyin_download_link_try api p share_link) = Raised x
            \<and> \<not> is_Exception (class_of x))
          \<or> (\<exists>e. outcome (get_douyin_download_link_try api p share_link) = Raised e
                \<and> is_Exception (class_of e) \<and> py_str e = Raised x))
   \<and> (outcome (get_douyin_download_link api p share_link) = Returned v
      \<longrightarrow> is_dict v \<or> get_download_link api share_link = Returned v)
   \<and> (outcome (extract_douyin_text api p share_link model_arg) = Raised x
      \<longleftrightarrow> (outcome (extract_douyin_text_try api p share_link (bind_model model_arg)) = Raised x
            \<and> \<not> is_Exception (class_of x))
          \<or> (\<exists>e. outcome (extract_douyin_text_try api p share_link (bind_model model_arg))
                    = Raised e
                \<and> is_Exception (class_of e) \<and> py_str e = Raised x))
   \<and> (outcome (extract_douyin_text api p share_link model_arg) = Returned v
      \<longrightarrow> is_str v
          \<or> (\<exists>k. os_getenv p DASHSCOPE_API_KEY = Some k \<and> k \<noteq> []
                 \<and> extract_text api share_link k (bind_model model_arg) = Returned v))"
proof (intro conjI impI)
  show "outcome (get_douyin_download_link api p share_link) = Raised x
      \<longleftrightarrow> (outcome (get_douyin_download_link_try api p share_link) = Raised x
            \<and> \<not> is_Exception (class_of x))
          \<or> (\<exists>e. outcome (get_douyin_download_link_try api p share_link) = Raised e
                \<and> is_Exception (class_of e) \<and> py_str e = Raised x)"
    by (simp add: get_douyin_download_link_def except_Exception_Raised link_error_dict_Raised)
next
  show "outcome (extract_douyin_text api p share_link model_arg) = Raised x
      \<longleftrightarrow> (outcome (extract_douyin_text_try api p share_link (bind_model model_arg)) = Raised x
            \<and> \<not> is_Exception (class_of x))
          \<or> (\<exists>e. outcome (extract_douyin_text_try api p share_link (bind_model model_arg))
                    = Raised e
                \<and> is_Exception (class_of e) \<and> py_str e = Raised x)"
    by (simp add: extract_douyin_text_def except_Exception_Raised text_error_string_Raised)
next
  assume r: "outcome (get_douyin_download_link api p share_link) = Returned v"
  show "is_dict v \<or> get_download_link api share_link = Returned v"
  proof (cases "outcome (get_douyin_download_link_try api p share_link)")
    case (Returned w)
    with r have "w = v"
      by (simp add: get_douyin_download_link_def except_Exception_outcome)
    with Returned show ?thesis
      by (auto simp add: link_try_outcome split: outcome.splits)
  next
    case (Raised e)
    with r have "link_error_dict e = Returned v"
      by (simp add: get_douyin_download_link_def except_Exception_outcome split: if_splits)
    then show ?thesis
      by (simp add: link_error_dict_Returned)
  qed
next
  assume r: "outcome (extract_douyin_text api p share_link model_arg) = Returned v"
  show "is_str v
          \<or> (\<exists>k. os_getenv p DASHSCOPE_API_KEY = Some k \<and> k \<noteq> []
                 \<and> extract_text api share_link k (bind_model model_arg) = Returned v)"
  proof (cases "outcome (extract_douyin_text_try api p share_link (bind_model model_arg))")
    case (Returned w)
    with r have "w = v"
      by (simp add: extract_douyin_text_def except_Exception_outcome)
    with Returned show ?thesis
      using text_try_Returned [of api p share_link "bind_model model_arg" v] by auto
  next
    case (Raised e)
    with r have "text_error_string e = Returned v"
      by (simp add: extract_douyin_text_def except_Exception_outcome split: if_splits)
    then show ?thesis
      by (simp add: text_error_string_Returned)
  qed
qed

theorem tool_outcomes_witness:
  "outcome (get_douyin_download_link interrupted_api fresh_process sample_link) = Raised interrupt
   \<and> \<not> is_Exception (class_of interrupt)
   \<and> outcome (get_douyin_download_link unprintable_api fresh_process sample_link)
       = Raised str_failure
   \<and> is_Exception (class_of unprintable_error) \<and> py_str unprintable_error = Raised str_failure
   \<and> outcome (get_douyin_download_link none_api fresh_process sample_link) = Returned PyNone
   \<and> get_download_link none_api sample_link = Returned PyNone
   \<and> outcome (extract_douyin_text failing_api configured_process sample_link None)
       = Returned (PyStr (error_marker @ ascii ''ProviderError''))
   \<and> is_str (PyStr (error_marker @ ascii ''ProviderError''))"
  using tool_outcomes [of interrupted_api fresh_process sample_link interrupt PyNone None]
    tool_outcomes [of unprintable_api fresh_process sample_link str_failure PyNone None]
    tool_outcomes [of none_api fresh_process sample_link interrupt PyNone None]
    tool_outcomes [of failing_api configured_process sample_link interrupt
      "PyStr (error_marker @ ascii ''ProviderError'')" None]
  by (simp add: tool_defs sample_defs)

section \<open>The missing credential\<close>

text \<open>
  C2: for every share_link (and every model argument), when \<open>DASHSCOPE_API_KEY\<close> is not
  in the environment of the process, \<open>extract_douyin_text\<close> returns the message about the
  missing credential at once: the only thing it has done is to read the variable; the
  collaborator module is neither imported nor called, and the process is unchanged.
\<close>

theorem no_credential_returns_at_once:
  "os_getenv p DASHSCOPE_API_KEY = None \<Longrightarrow>
   extract_douyin_text api p share_link model_arg =
     \<lparr>outcome = Returned (PyStr missing_key_message),
      events = [Getenv DASHSCOPE_API_KEY], after = p\<rparr>"
  by (rule text_tool_no_key) simp

theorem no_credential_returns_at_once_witness:
  "os_getenv fresh_process DASHSCOPE_API_KEY = None \<and>
   extract_douyin_text mock_api fresh_process sample_link None =
     \<lparr>outcome = Returned (PyStr missing_key_message), events = [Getenv DASHSCOPE_API_KEY],
      after = fresh_process\<rparr>"
  using no_credential_returns_at_once [OF key_of_fresh, of mock_api sample_link None] key_of_fresh
  by simp

section \<open>Failures and successes of the pipeline\<close>

text \<open>
  C3, as stated: every failure of a pipeline stage is mapped to the declared result shape
  of the tool. This fails for a failure that is not an instance of \<open>Exception\<close> (the text
  tool lets a \<open>KeyboardInterrupt\<close> of the pipeline through) and for an error whose
  \<open>__str__\<close> raises (the link tool then raises what \<open>str(e)\<close> raised).
\<close>

theorem stage_failure_not_wrapped:
  "outcome (extract_douyin_text interrupted_api configured_process sample_link None)
     = Raised interrupt
   \<and> outcome (get_douyin_download_link unprintable_api fresh_process sample_link)
     = Raised str_failure"
  by (simp add: tool_defs sample_defs)

text \<open>
  C3, amended: every failure \<open>e\<close> of a pipeline stage that is an instance of
  \<open>Exception\<close> and whose \<open>str(e)\<close> gives a string \<open>s\<close>, raised by importing the
  collaborator module or by the function the tool calls, is mapped to the declared result
  shape: \<open>get_douyin_download_link\<close> returns the dict with \<open>error\<close> = \<open>s\<close> and
  \<open>message\<close> = the fixed text of line 57, and \<open>extract_douyin_text\<close> (which calls the
  pipeline only with a non-empty credential) returns the marker U+9519 U+8BEF U+FF1A
  followed by \<open>s\<close>.
\<close>

theorem stage_failure_is_wrapped:
  assumes "is_Exception (class_of e)" and "py_str e = Returned s"
  shows "(fst (import_api api (ascii ''get_download_link'') p) = Raised e
          \<or> (fst (import_api api (ascii ''get_download_link'') p) = Returned ()
             \<and> get_download_link api share_link = Raised e)
         \<longrightarrow> outcome (get_douyin_download_link api p share_link) =
               Returned (PyDict [ascii ''error'' \<mapsto> PyStr s,
                                 ascii ''message'' \<mapsto> PyStr link_failed_message]))
       \<and> (\<forall>k. os_getenv p DASHSCOPE_API_KEY = Some k \<and> k \<noteq> []
              \<and> (fst (import_api api (ascii ''extract_text'') p) = Raised e
                 \<or> (fst (import_api api (ascii ''extract_text'') p) = Returned ()
                    \<and> extract_text api share_link k (bind_model model_arg) = Raised e))
         \<longrightarrow> outcome (extract_douyin_text api p share_link model_arg) =
               Returned (PyStr (error_marker @ s)))"
proof (intro conjI impI allI)
  assume "fst (import_api api (ascii ''get_download_link'') p) = Raised e
          \<or> (fst (import_api api (ascii ''get_download_link'') p) = Returned ()
             \<and> get_download_link api share_link = Raised e)"
  then have "outcome (get_douyin_download_link_try api p share_link) = Raised e"
    by (auto simp add: link_try_outcome)
  with assms show "outcome (get_douyin_download_link api p share_link) =
      Returned (PyDict [ascii ''error'' \<mapsto> PyStr s,
                        ascii ''message'' \<mapsto> PyStr link_failed_message])"
    by (simp add: get_douyin_download_link_def except_Exception_outcome link_error_dict_def)
next
  fix k
  assume "os_getenv p DASHSCOPE_API_KEY = Some k \<and> k \<noteq> []
          \<and> (fst (import_api api (ascii ''extract_text'') p) = Raised e
             \<or> (fst (import_api api (ascii ''extract_text'') p) = Returned ()
                \<and> extract_text api share_link k (bind_model model_arg) = Raised e))"
  then have "outcome (extract_douyin_text_try api p share_link (bind_model model_arg)) = Raised e"
    by (auto simp add: text_try_outcome_import_fails text_try_import_ok)
  with assms show "outcome (extract_douyin_text api p share_link model_arg) =
      Returned (PyStr (error_marker @ s))"
    by (simp add: extract_douyin_text_def except_Exception_outcome text_error_string_def)
qed

theorem stage_failure_is_wrapped_witness:
  "is_Exception (class_of provider_error)
   \<and> py_str provider_error = Returned (ascii ''ProviderError'')
   \<and> get_download_link failing_api sample_link = Raised provider_error
   \<and> outcome (get_douyin_download_link failing_api configured_process sample_link) =
       Returned (PyDict [ascii ''error'' \<mapsto> PyStr (ascii ''ProviderError''),
                         ascii ''message'' \<mapsto> PyStr link_failed_message])
   \<and> outcome (extract_douyin_text failing_api configured_process sample_link None) =
       Returned (PyStr (error_marker @ ascii ''ProviderError''))"
  using stage_failure_is_wrapped [OF provider_error_is_Exception provider_error_str,
      of failing_api configured_process sample_link None]
    import_failing_api key_of_configured key_nonempty provider_error_is_Exception
    provider_error_str
  by (simp add: failing_api_def)

text \<open>
  C4, as stated: the tools return the pipeline's result unchanged, and an error of the
  transcription gives an error-prefixed string, not an exception. The second part fails: an
  error whose \<open>__str__\<close> raises, and a \<open>SystemExit\<close>, leave \<open>extract_douyin_text\<close> as
  exceptions.
\<close>

theorem transcription_error_escapes:
  "outcome (extract_douyin_text unprintable_api configured_process sample_link None)
     = Raised str_failure
   \<and> outcome (extract_douyin_text exiting_api configured_process sample_link None)
     = Raised exit_request"
  by (simp add: tool_defs sample_defs)

text \<open>
  C4, amended: when the collaborator module imports, \<open>get_douyin_download_link\<close> returns
  the value of \<open>get_download_link\<close> unchanged; when moreover the credential is configured
  (set and not empty), \<open>extract_douyin_text\<close> returns the transcript of \<open>extract_text\<close>
  unchanged; and when the transcription fails with an error that is an instance of
  \<open>Exception\<close> and whose \<open>str(e)\<close> gives a string \<open>s\<close>, the result is the returned
  string made of the error marker and \<open>s\<close>, not an exception.
\<close>

theorem pipeline_result_returned_unchanged:
  "(\<forall>d. fst (import_api api (ascii ''get_download_link'') p) = Returned ()
         \<and> get_download_link api share_link = Returned d
      \<longrightarrow> outcome (get_douyin_download_link api p share_link) = Returned d)
   \<and> (\<forall>k. os_getenv p DASHSCOPE_API_KEY = Some k \<and> k \<noteq> []
          \<and> fst (import_api api (ascii ''extract_text'') p) = Returned () \<longrightarrow>
        (\<forall>t. extract_text api share_link k (bind_model model_arg) = Returned t
           \<longrightarrow> outcome (extract_douyin_text api p share_link model_arg) = Returned t)
      \<and> (\<forall>e s. extract_text api share_link k (bind_model model_arg) = Raised e
              \<and> is_Exception (class_of e) \<and> py_str e = Returned s
           \<longrightarrow> outcome (extract_douyin_text api p share_link model_arg)
                 = Returned (PyStr (error_marker @ s))
               \<and> prefix error_marker (error_marker @ s)))"
  by (auto simp add: get_douyin_download_link_def extract_douyin_text_def
      link_try_import_ok text_try_import_ok except_Exception_outcome
      text_error_string_def)

theorem pipeline_result_returned_unchanged_witness:
  "fst (import_api mock_api (ascii ''get_download_link'') configured_process) = Returned ()
   \<and> fst (import_api mock_api (ascii ''extract_text'') configured_process) = Returned ()
   \<and> outcome (get_douyin_download_link mock_api configured_process sample_link) =
       Returned (PyDict (metadata_dict sample_metadata))
   \<and> outcome (extract_douyin_text mock_api configured_process sample_link None) =
       Returned (PyStr (ascii ''hello world''))
   \<and> fst (import_api failing_api (ascii ''extract_text'') configured_process) = Returned ()
   \<and> outcome (extract_douyin_text failing_api configured_process sample_link None)
       = Returned (PyStr (error_marker @ ascii ''ProviderError''))"
  using pipeline_result_returned_unchanged [of mock_api configured_process sample_link None]
    pipeline_result_returned_unchanged [of failing_api configured_process sample_link None]
    import_mock_api import_failing_api key_of_configured key_nonempty provider_error_is_Exception
    provider_error_str
  by (simp add: mock_api_def failing_api_def)

text \<open>
  C5, as stated: on failure \<open>get_douyin_download_link\<close> returns a mapping with the fields
  error and message. This fails where no mapping is returned at all: a \<open>SystemExit\<close> of the
  pipeline, and an error whose \<open>__str__\<close> raises, leave the tool as exceptions.
\<close>

theorem link_failure_without_mapping:
  "outcome (get_douyin_download_link exiting_api fresh_process sample_link) = Raised exit_request
   \<and> outcome (get_douyin_download_link unprintable_api configured_process sample_link)
     = Raised str_failure"
  by (simp add: tool_defs sample_defs)

text \<open>
  C5, amended: with the pipeline's \<open>get_download_link\<close> as the spec gives it, a success of
  \<open>get_douyin_download_link\<close> is a mapping whose keys are exactly videoId, title, author,
  coverUrl, playUrl and durationSeconds; on a failure that is an instance of \<open>Exception\<close>
  and whose \<open>str(e)\<close> gives a string (raised by the import or by a stage) the tool returns
  a mapping whose keys are exactly error and message.
\<close>

theorem link_tool_result_fields:
  assumes "get_download_link api = spec_get_download_link resolve"
  shows "(\<forall>v. fst (import_api api (ascii ''get_download_link'') p) = Returned ()
              \<and> resolve share_link = Returned v
            \<longrightarrow> (\<exists>d. outcome (get_douyin_download_link api p share_link) = Returned (PyDict d)
                    \<and> dom d = {ascii ''videoId'', ascii ''title'', ascii ''author'',
                               ascii ''coverUrl'', ascii ''playUrl'', ascii ''durationSeconds''}))
       \<and> (\<forall>e s. is_Exception (class_of e) \<and> py_str e = Returned s
              \<and> (fst (import_api api (ascii ''get_download_link'') p) = Raised e
                 \<or> (fst (import_api api (ascii ''get_download_link'') p) = Returned ()
                    \<and> resolve share_link = Raised e))
            \<longrightarrow> (\<exists>d. outcome (get_douyin_download_link api p share_link) = Returned (PyDict d)
                    \<and> dom d = {ascii ''error'', ascii ''message''}))"
proof (intro conjI allI impI)
  fix v
  assume a: "fst (import_api api (ascii ''get_download_link'') p) = Returned ()
      \<and> resolve share_link = Returned v"
  with assms have "outcome (get_douyin_download_link api p share_link)
      = Returned (PyDict (metadata_dict v))"
    by (simp add: get_douyin_download_link_def link_try_outcome except_Exception_outcome
        spec_get_download_link_def)
  then show "\<exists>d. outcome (get_douyin_download_link api p share_link) = Returned (PyDict d)
      \<and> dom d = {ascii ''videoId'', ascii ''title'', ascii ''author'',
                 ascii ''coverUrl'', ascii ''playUrl'', ascii ''durationSeconds''}"
    using dom_metadata_dict by blast
next
  fix e s
  assume a: "is_Exception (class_of e) \<and> py_str e = Returned s
      \<and> (fst (import_api api (ascii ''get_download_link'') p) = Raised e
         \<or> (fst (import_api api (ascii ''get_download_link'') p) = Returned ()
            \<and> resolve share_link = Raised e))"
  with assms have "outcome (get_douyin_download_link_try api p share_link) = Raised e"
    by (auto simp add: link_try_outcome spec_get_download_link_def)
  with a have "outcome (get_douyin_download_link api p share_link)
      = Returned (PyDict [ascii ''error'' \<mapsto> PyStr s,
                          ascii ''message'' \<mapsto> PyStr link_failed_message])"
    by (simp add: get_douyin_download_link_def except_Exception_outcome link_error_dict_def)
  moreover have "dom [ascii ''error'' \<mapsto> PyStr s, ascii ''message'' \<mapsto> PyStr link_failed_message]
      = {ascii ''error'', ascii ''message''}"
    by auto
  ultimately show "\<exists>d. outcome (get_douyin_download_link api p share_link) = Returned (PyDict d)
      \<and> dom d = {ascii ''error'', ascii ''message''}"
    by blast
qed

theorem link_tool_result_fields_witness:
  "get_download_link mock_api = spec_get_download_link mock_resolve
   \<and> (\<exists>d. outcome (get_douyin_download_link mock_api fresh_process sample_link)
            = Returned (PyDict d)
          \<and> dom d = {ascii ''videoId'', ascii ''title'', ascii ''author'',
                     ascii ''coverUrl'', ascii ''playUrl'', ascii ''durationSeconds''})
   \<and> get_download_link failing_api = spec_get_download_link failing_resolve
   \<and> (\<exists>d. outcome (get_douyin_download_link failing_api fresh_process sample_link)
            = Returned (PyDict d)
          \<and> dom d = {ascii ''error'', ascii ''message''})"
  using link_tool_result_fields [OF mock_api_spec, of fresh_process sample_link]
    link_tool_result_fields [OF failing_api_spec, of fresh_process sample_link]
    mock_api_spec failing_api_spec import_failing_api_fresh import_mock_api_fresh
    provider_error_is_Exception provider_error_str
  by (simp add: mock_resolve_def failing_resolve_def)

section \<open>Where the credential and the model come from\<close>



text \<open>
  C7: a call of \<open>extract_douyin_text\<close> without a model argument is the call with the model
  \<open>paraformer-v2\<close>, and the model string of the call, whatever it is, is the third
  argument of the pipeline's \<open>extract_text\<close>, unchanged: the call that is made carries it,
  and what the tool returns is what \<open>extract_text\<close> returns for this very model.
\<close>

theorem model_default_and_passthrough:
  "bind_model None = ascii ''paraformer-v2''
   \<and> extract_douyin_text api p share_link None
       = extract_douyin_text api p share_link (Some (ascii ''paraformer-v2''))
   \<and> (\<forall>k. os_getenv p DASHSCOPE_API_KEY = Some k \<and> k \<noteq> []
           \<and> fst (import_api api (ascii ''extract_text'') p) = Returned ()
        \<longrightarrow> events (extract_douyin_text api p share_link (Some m))
              = [Getenv DASHSCOPE_API_KEY, Import_from_api (ascii ''extract_text''),
                 Call_extract_text share_link k m]
          \<and> (\<forall>t. extract_text api share_link k m = Returned t
                \<longrightarrow> outcome (extract_douyin_text api p share_link (Some m)) = Returned t)
          \<and> events (extract_douyin_text api p share_link None)
              = [Getenv DASHSCOPE_API_KEY, Import_from_api (ascii ''extract_text''),
                 Call_extract_text share_link k (ascii ''paraformer-v2'')]
          \<and> (\<forall>t. extract_text api share_link k (ascii ''paraformer-v2'') = Returned t
                \<longrightarrow> outcome (extract_douyin_text api p share_link None) = Returned t))"
  by (simp add: extract_douyin_text_def bind_model_def default_model_def
      except_Exception_events except_Exception_outcome text_try_import_ok)

theorem model_default_and_passthrough_witness:
  "os_getenv configured_process DASHSCOPE_API_KEY = Some (ascii ''sk-test'')
   \<and> ascii ''sk-test'' \<noteq> []
   \<and> fst (import_api echo_api (ascii ''extract_text'') configured_process) = Returned ()
   \<and> extract_text echo_api sample_link (ascii ''sk-test'') (ascii ''sensevoice-v1'')
       = Returned (PyStr (ascii ''sensevoice-v1''))
   \<and> outcome (extract_douyin_text echo_api configured_process sample_link
               (Some (ascii ''sensevoice-v1'')))
       = Returned (PyStr (ascii ''sensevoice-v1''))
   \<and> events (extract_douyin_text echo_api configured_process sample_link
               (Some (ascii ''sensevoice-v1'')))
       = [Getenv DASHSCOPE_API_KEY, Import_from_api (ascii ''extract_text''),
          Call_extract_text sample_link (ascii ''sk-test'') (ascii ''sensevoice-v1'')]
   \<and> outcome (extract_douyin_text echo_api configured_process sample_link None)
       = Returned (PyStr (ascii ''paraformer-v2''))"
  using model_default_and_passthrough
      [of echo_api configured_process sample_link "ascii ''sensevoice-v1''",
       THEN conjunct2, THEN conjunct2, rule_format, of "ascii ''sk-test''"]
    import_echo_api key_of_configured key_nonempty
  by (simp add: echo_api_def)

section \<open>Repeated calls\<close>

text \<open>
  C8: two calls of \<open>get_douyin_download_link\<close> with the same share_link against the same
  collaborator give the same result: the second call, started in the process the first one
  left, has the outcome of the first. The only state a call leaves is the import cache, and a
  call of the other tool in between does not change the outcome either.
\<close>

theorem link_tool_repeatable:
  "outcome (get_douyin_download_link api
       (after (get_douyin_download_link api p share_link)) share_link)
     = outcome (get_douyin_download_link api p share_link)
   \<and> outcome (get_douyin_download_link api
       (after (extract_douyin_text api p other_link model_arg)) share_link)
     = outcome (get_douyin_download_link api p share_link)"
proof
  have same: "outcome (get_douyin_download_link api q share_link)
        = outcome (get_douyin_download_link api p share_link)"
    if "q = p \<or> ((api_loaded p \<or> exec_module api = None) \<and> q = p\<lparr>api_loaded := True\<rparr>)"
    for q
  proof -
    from that have "fst (import_api api (ascii ''get_download_link'') q)
        = fst (import_api api (ascii ''get_download_link'') p)"
      using import_api_loaded [of p api "ascii ''get_download_link''"] by auto
    then show ?thesis
      by (rule link_tool_same_import)
  qed
  show "outcome (get_douyin_download_link api
       (after (get_douyin_download_link api p share_link)) share_link)
     = outcome (get_douyin_download_link api p share_link)"
    by (rule same) (rule after_link_tool)
  show "outcome (get_douyin_download_link api
       (after (extract_douyin_text api p other_link model_arg)) share_link)
     = outcome (get_douyin_download_link api p share_link)"
    by (rule same) (rule after_text_tool)
qed

theorem link_tool_repeatable_witness:
  "outcome (get_douyin_download_link mock_api
       (after (get_douyin_download_link mock_api fresh_process sample_link)) sample_link)
     = Returned (PyDict (metadata_dict sample_metadata))
   \<and> outcome (get_douyin_download_link mock_api fresh_process sample_link)
     = Returned (PyDict (metadata_dict sample_metadata))"
  using link_tool_repeatable [of mock_api fresh_process sample_link sample_link None]
  by (simp add: tool_defs mock_api_def fresh_process_def)

section \<open>Startup\<close>

text \<open>
  C9: at startup the port is 8000 when \<open>PORT\<close> is not in the environment, and it is taken
  from \<open>PORT\<close> when it is there: the port is \<open>int\<close> of the variable's value.
\<close>

theorem port_from_environment:
  "(environ p (ascii ''PORT'') = None \<longrightarrow> main_port int_of_str p = Returned 8000)
   \<and> (\<forall>s. environ p (ascii ''PORT'') = Some s \<longrightarrow> main_port int_of_str p = int_of_str s)"
  by (simp add: main_port_def py_int_def os_getenv_default_def)

theorem port_from_environment_witness:
  "environ fresh_process (ascii ''PORT'') = None
   \<and> main_port int_of_ascii_digits fresh_process = Returned 8000
   \<and> environ port_process (ascii ''PORT'') = Some (ascii ''8080'')
   \<and> main_port int_of_ascii_digits port_process = Returned 8080"
  using port_from_environment [of fresh_process int_of_ascii_digits]
    port_from_environment [of port_process int_of_ascii_digits]
  by (simp add: fresh_process_def port_process_def int_of_ascii_digits_def ascii_def)

section \<open>The empty credential\<close>

text \<open>
  C10: an empty \<open>DASHSCOPE_API_KEY\<close> is treated as an unset one. For every share_link,
  when the variable is unset or empty, \<open>extract_douyin_text\<close> returns the fixed message
  about the missing credential, which starts with the error marker U+9519 U+8BEF U+FF1A, and
  the pipeline is neither imported nor called.
\<close>

theorem empty_credential_is_missing_credential:
  "os_getenv p DASHSCOPE_API_KEY = None \<or> os_getenv p DASHSCOPE_API_KEY = Some [] \<Longrightarrow>
   extract_douyin_text api p share_link model_arg =
     \<lparr>outcome = Returned (PyStr missing_key_message),
      events = [Getenv DASHSCOPE_API_KEY], after = p\<rparr>
   \<and> prefix error_marker missing_key_message"
  by (auto simp add: text_tool_no_key missing_key_message_def)

theorem empty_credential_is_missing_credential_witness:
  "os_getenv empty_key_process DASHSCOPE_API_KEY = Some []
   \<and> extract_douyin_text mock_api empty_key_process sample_link None =
     \<lparr>outcome = Returned (PyStr missing_key_message), events = [Getenv DASHSCOPE_API_KEY],
      after = empty_key_process\<rparr>
   \<and> os_getenv fresh_process DASHSCOPE_API_KEY = None
   \<and> extract_douyin_text mock_api fresh_process sample_link None =
     \<lparr>outcome = Returned (PyStr missing_key_message), events = [Getenv DASHSCOPE_API_KEY],
      after = fresh_process\<rparr>"
  using empty_credential_is_missing_credential [of empty_key_process mock_api sample_link None]
    empty_credential_is_missing_credential [of fresh_process mock_api sample_link None]
    key_of_empty key_of_fresh
  by simp

end
